theory Spec2Isabelle
  imports Complex_Main
begin

section \<open>JavaScript values as the storage and the network deliver them\<close>

text \<open>
  The persistence service, the exchange-rate service and the application read untyped
  data: whatever \<^verbatim>\<open>JSON.parse\<close> makes of a stored or downloaded text. Such a value is
  a \<open>json\<close>; an object keeps its properties in insertion order and is read with
  \<open>map_of\<close>. Numbers are IEEE doubles in the program and reals here: rounding, \<open>NaN\<close>
  as a stored number and the infinities are outside the model (\<open>NaN\<close> as the result of
  a conversion is \<open>None\<close>).
\<close>

datatype json =
    JNull
  | JBool bool
  | JNum real
  | JStr string
  | JArr "json list"
  | JObj "(string \<times> json) list"

datatype error = SyntaxError | TypeError | FetchRejected | HttpError

text \<open>
  A string held by \<^verbatim>\<open>localStorage\<close>, \<^verbatim>\<open>sessionStorage\<close> or a response body is
  represented by what \<^verbatim>\<open>JSON.parse\<close> makes of it: \<open>JSONText v\<close> is a text that parses
  to \<open>v\<close> (so it is what \<^verbatim>\<open>JSON.stringify\<close> writes for \<open>v\<close>), \<open>NotJSON s\<close> is a
  string \<open>s\<close> that the parser rejects. The empty string is \<open>NotJSON []\<close>.
\<close>

datatype rawtext = NotJSON string | JSONText json

definition JSON_parse :: "rawtext \<Rightarrow> error + json" where
  "JSON_parse d = (case d of NotJSON s \<Rightarrow> Inl SyntaxError | JSONText v \<Rightarrow> Inr v)"

definition JSON_stringify :: "json \<Rightarrow> rawtext" where
  "JSON_stringify v = JSONText v"

text \<open>\<^verbatim>\<open>if (!data)\<close> on a string or \<^verbatim>\<open>null\<close>: only \<^verbatim>\<open>null\<close> and the empty string are falsy.\<close>

definition present :: "rawtext option \<Rightarrow> bool" where
  "present d = (case d of None \<Rightarrow> False | Some t \<Rightarrow> t \<noteq> NotJSON [])"

text \<open>
  Reading a property \<^verbatim>\<open>t.k\<close>: \<^verbatim>\<open>null\<close> throws a TypeError, an object gives its own
  property or \<^verbatim>\<open>undefined\<close> (\<open>None\<close>), and the other values have none of the properties
  the program reads (\<^verbatim>\<open>id\<close>, \<^verbatim>\<open>amount\<close>, \<^verbatim>\<open>rates\<close>, ...).
\<close>

fun getprop :: "json \<Rightarrow> string \<Rightarrow> error + json option" where
  "getprop JNull k = Inl TypeError"
| "getprop (JObj kvs) k = Inr (map_of kvs k)"
| "getprop v k = Inr None"

text \<open>Truthiness, as \<^verbatim>\<open>||\<close> and \<^verbatim>\<open>&&\<close> test it.\<close>

fun truthy :: "json option \<Rightarrow> bool" where
  "truthy None = False"
| "truthy (Some JNull) = False"
| "truthy (Some (JBool b)) = b"
| "truthy (Some (JNum n)) = (n \<noteq> 0)"
| "truthy (Some (JStr s)) = (s \<noteq> [])"
| "truthy (Some (JArr xs)) = True"
| "truthy (Some (JObj kvs)) = True"

text \<open>
  What the browser supplies and the repository does not define: the numeric conversion of
  strings, arrays and objects (the StringToNumber grammar and ToPrimitive, which can throw),
  the random identifiers, and the formatting of a time stamp.
\<close>

record platform =
  ToNumber :: "json \<Rightarrow> error + real option"
  randomUUID :: "nat \<Rightarrow> string"
  toISOString :: "int \<Rightarrow> string"

text \<open>\<^verbatim>\<open>Number(v)\<close>; \<open>Inr None\<close> is \<open>NaN\<close>.\<close>

fun Number :: "platform \<Rightarrow> json option \<Rightarrow> error + real option" where
  "Number P None = Inr None"
| "Number P (Some JNull) = Inr (Some 0)"
| "Number P (Some (JBool b)) = Inr (Some (if b then 1 else 0))"
| "Number P (Some (JNum n)) = Inr (Some n)"
| "Number P (Some v) = ToNumber P v"

section \<open>Types of the application (types.ts)\<close>

datatype CurrencyCode = IDR | USD | EUR

fun code :: "CurrencyCode \<Rightarrow> string" where
  "code IDR = ''IDR''"
| "code USD = ''USD''"
| "code EUR = ''EUR''"

datatype TransactionType = INCOME | EXPENSE

section \<open>Currency conversion in the application (App.tsx)\<close>

text \<open>
  The two pieces of component state that \<^verbatim>\<open>convertAmount\<close> reads. \<^verbatim>\<open>exchangeRates\<close> is
  declared \<^verbatim>\<open>Record<string, number> | null\<close> and starts as \<^verbatim>\<open>null\<close>; \<^verbatim>\<open>isLoadingRates\<close>
  starts as \<^verbatim>\<open>true\<close>.
\<close>

record app_state =
  exchangeRates :: "(string \<times> real) list option"
  isLoadingRates :: bool

definition initial_state :: app_state where
  "initial_state = \<lparr>exchangeRates = None, isLoadingRates = True\<rparr>"

text \<open>
  The effect \<^verbatim>\<open>fetchRates\<close>, run at start and whenever \<^verbatim>\<open>settings.currency\<close> changes, in
  its two halves: before and after \<^verbatim>\<open>await getLatestRates(settings.currency)\<close>.
\<close>

definition fetchRates_begin :: "app_state \<Rightarrow> app_state" where
  "fetchRates_begin st = st\<lparr>isLoadingRates := True\<rparr>"

definition fetchRates_done :: "(string \<times> real) list \<Rightarrow> app_state \<Rightarrow> app_state" where
  "fetchRates_done rates st = st\<lparr>exchangeRates := Some rates, isLoadingRates := False\<rparr>"

text \<open>
  \<^verbatim>\<open>convertAmount\<close> returns the amount and whether \<^verbatim>\<open>console.warn\<close> was called.
  \<^verbatim>\<open>fromRate && toRate\<close> holds when both numbers are there and neither is 0.
\<close>

definition convertAmount :: "app_state \<Rightarrow> real \<Rightarrow> CurrencyCode \<Rightarrow> CurrencyCode \<Rightarrow> real \<times> bool" where
  "convertAmount st amount from to =
     (case exchangeRates st of
        None \<Rightarrow> (if from = to then amount else 0, False)
      | Some rates \<Rightarrow>
          if from = to \<or> isLoadingRates st then (if from = to then amount else 0, False)
          else
            (case (map_of rates (code from), map_of rates (code to)) of
               (Some fromRate, Some toRate) \<Rightarrow>
                 if fromRate \<noteq> 0 \<and> toRate \<noteq> 0
                 then (let amountInBase = amount / fromRate;
                           finalAmount = amountInBase * toRate
                       in (finalAmount, False))
                 else (amount, True)
             | _ \<Rightarrow> (amount, True)))"

text \<open>The state while rates are fetched again after the display currency was changed.\<close>

definition reloading_state :: app_state where
  "reloading_state =
     fetchRates_begin (fetchRates_done [(''USD'', 1), (''EUR'', 92 / 100)] initial_state)"

section \<open>Objects: assignment, spread, delete\<close>

text \<open>\<^verbatim>\<open>o[k] = v\<close>: an existing property keeps its place, a new one goes last.\<close>

fun assign :: "(string \<times> json) list \<Rightarrow> string \<Rightarrow> json \<Rightarrow> (string \<times> json) list" where
  "assign [] k v = [(k, v)]"
| "assign ((k', v') # kvs) k v =
     (if k' = k then (k, v) # kvs else (k', v') # assign kvs k v)"

text \<open>The decimal numeral of an array index, as a property key.\<close>

definition digit :: "nat \<Rightarrow> char" where
  "digit n = ''0123456789'' ! (n mod 10)"

fun decimal :: "nat \<Rightarrow> string" where
  "decimal n = (if n < 10 then [digit n] else decimal (n div 10) @ [digit (n mod 10)])"

text \<open>
  The own enumerable properties that a spread \<^verbatim>\<open>{...v}\<close> copies: those of an object, the
  indexed elements of an array, the indexed characters of a string, none for \<^verbatim>\<open>null\<close>,
  a number or a boolean. A spread never throws. (The engine enumerates integer-like keys
  first; objects are only read by key here, so that order is not modelled.)
\<close>

fun own_properties :: "json \<Rightarrow> (string \<times> json) list" where
  "own_properties (JObj kvs) = kvs"
| "own_properties (JArr xs) = map (\<lambda>i. (decimal i, xs ! i)) [0..<length xs]"
| "own_properties (JStr s) = map (\<lambda>i. (decimal i, JStr [s ! i])) [0..<length s]"
| "own_properties v = []"

definition spread :: "(string \<times> json) list \<Rightarrow> json \<Rightarrow> (string \<times> json) list" where
  "spread target v = foldl (\<lambda>obj (k, x). assign obj k x) target (own_properties v)"

text \<open>
  \<^verbatim>\<open>delete v[k]\<close> for a key that is neither \<^verbatim>\<open>length\<close> nor an index (the currency codes):
  it removes the property of an object and does nothing to another value. On \<^verbatim>\<open>null\<close>
  and \<^verbatim>\<open>undefined\<close> it throws; the caller tests that.
\<close>

fun delete_prop :: "json \<Rightarrow> string \<Rightarrow> json" where
  "delete_prop (JObj kvs) k = JObj (filter (\<lambda>(k', v). k' \<noteq> k) kvs)"
| "delete_prop v k = v"

section \<open>The browser state the services work on\<close>

text \<open>
  The two storages, the clock read by \<^verbatim>\<open>Date.now()\<close> (milliseconds), how many random
  identifiers were drawn, and the URLs fetched so far. Writing to a storage can fail in a
  browser when the quota is exceeded; the model has no quota.
\<close>

record world =
  localStorage :: "string \<rightharpoonup> rawtext"
  sessionStorage :: "string \<rightharpoonup> rawtext"
  now :: int
  uuids_drawn :: nat
  requested :: "string list"

record response =
  ok :: bool
  body :: rawtext

type_synonym network = "string \<Rightarrow> response option"

section \<open>Persistence service (services/storage.ts)\<close>

definition STORAGE_KEY :: string where
  "STORAGE_KEY = ''glassfinance_data_id''"

definition SETTINGS_KEY :: string where
  "SETTINGS_KEY = ''glassfinance_settings''"

definition DEFAULT_SETTINGS :: "(string \<times> json) list" where
  "DEFAULT_SETTINGS =
     [(''currency'', JStr ''IDR''), (''language'', JStr ''id''), (''theme'', JStr ''dark''),
      (''username'', JStr ''User''), (''avatar'', JNull)]"

text \<open>
  A transaction as \<^verbatim>\<open>getTransactions\<close> builds it. The interface declares \<^verbatim>\<open>id\<close>,
  \<^verbatim>\<open>description\<close>, \<^verbatim>\<open>category\<close>, \<^verbatim>\<open>date\<close> as strings and \<^verbatim>\<open>currency\<close> as a
  currency code, but \<^verbatim>\<open>t.id || ...\<close> keeps any truthy stored value, so these fields hold
  a \<open>json\<close>.
\<close>

record Transaction =
  tx_id :: json
  tx_amount :: real
  tx_description :: json
  tx_category :: json
  tx_date :: json
  tx_type :: TransactionType
  tx_currency :: json

text \<open>A property of a value already known not to be \<^verbatim>\<open>null\<close>.\<close>

definition field :: "json \<Rightarrow> string \<Rightarrow> json option" where
  "field t k = (case getprop t k of Inl e \<Rightarrow> None | Inr v \<Rightarrow> v)"

text \<open>\<^verbatim>\<open>a || d\<close> for a default \<open>d\<close> that costs nothing to evaluate.\<close>

definition or_else :: "json option \<Rightarrow> json \<Rightarrow> json" where
  "or_else a d = (case a of None \<Rightarrow> d | Some v \<Rightarrow> if truthy (Some v) then v else d)"

text \<open>
  The callback of \<^verbatim>\<open>parsed.map\<close>. Reading \<^verbatim>\<open>t.id\<close> of \<^verbatim>\<open>null\<close> throws, and so can
  \<^verbatim>\<open>Number(t.amount)\<close>; \<^verbatim>\<open>crypto.randomUUID()\<close> is called only when \<^verbatim>\<open>t.id\<close> is falsy.
\<close>

definition sanitize :: "platform \<Rightarrow> json \<Rightarrow> world \<Rightarrow> (error + Transaction) \<times> world" where
  "sanitize P t w =
     (case getprop t ''id'' of
        Inl e \<Rightarrow> (Inl e, w)
      | Inr raw_id \<Rightarrow>
          (let the_id = or_else raw_id (JStr (randomUUID P (uuids_drawn w)));
               w' = (if truthy raw_id then w else w\<lparr>uuids_drawn := Suc (uuids_drawn w)\<rparr>)
           in case Number P (field t ''amount'') of
                Inl e \<Rightarrow> (Inl e, w')
              | Inr n \<Rightarrow>
                  (Inr \<lparr>tx_id = the_id,
                        tx_amount = (case n of None \<Rightarrow> 0 | Some x \<Rightarrow> if x \<noteq> 0 then x else 0),
                        tx_description = or_else (field t ''description'') (JStr ''Tanpa Keterangan''),
                        tx_category = or_else (field t ''category'') (JStr ''Lainnya''),
                        tx_date = or_else (field t ''date'') (JStr (toISOString P (now w'))),
                        tx_type = (if field t ''type'' = Some (JStr ''income'') then INCOME else EXPENSE),
                        tx_currency = or_else (field t ''currency'') (JStr ''IDR'')\<rparr>, w')))"

fun sanitize_all :: "platform \<Rightarrow> json list \<Rightarrow> world \<Rightarrow> (error + Transaction list) \<times> world" where
  "sanitize_all P [] w = (Inr [], w)"
| "sanitize_all P (t # ts) w =
     (case sanitize P t w of
        (Inl e, w') \<Rightarrow> (Inl e, w')
      | (Inr x, w') \<Rightarrow>
          (case sanitize_all P ts w' of
             (Inl e, w'') \<Rightarrow> (Inl e, w'')
           | (Inr xs, w'') \<Rightarrow> (Inr (x # xs), w'')))"

definition getTransactions :: "platform \<Rightarrow> world \<Rightarrow> Transaction list \<times> world" where
  "getTransactions P w =
     (case localStorage w STORAGE_KEY of
        None \<Rightarrow> ([], w)
      | Some data \<Rightarrow>
          if data = NotJSON [] then ([], w)
          else
            (case JSON_parse data of
               Inl e \<Rightarrow> ([], w)
             | Inr (JArr parsed) \<Rightarrow>
                 (case sanitize_all P parsed w of
                    (Inl e, w') \<Rightarrow> ([], w')
                  | (Inr ts, w') \<Rightarrow> (ts, w'))
             | Inr other \<Rightarrow> ([], w)))"

text \<open>What \<^verbatim>\<open>JSON.stringify\<close> writes for a transaction.\<close>

definition toJSON :: "Transaction \<Rightarrow> json" where
  "toJSON t =
     JObj [(''id'', tx_id t), (''amount'', JNum (tx_amount t)),
           (''description'', tx_description t), (''category'', tx_category t),
           (''date'', tx_date t),
           (''type'', JStr (case tx_type t of INCOME \<Rightarrow> ''income'' | EXPENSE \<Rightarrow> ''expense'')),
           (''currency'', tx_currency t)]"

definition setTransactions :: "Transaction list \<Rightarrow> world \<Rightarrow> world" where
  "setTransactions ts w =
     w\<lparr>localStorage := (localStorage w)(STORAGE_KEY \<mapsto> JSON_stringify (JArr (map toJSON ts)))\<rparr>"

definition saveTransaction :: "platform \<Rightarrow> Transaction \<Rightarrow> world \<Rightarrow> Transaction list \<times> world" where
  "saveTransaction P transaction w =
     (let (current, w') = getTransactions P w;
          updated = transaction # current
      in (updated, setTransactions updated w'))"

definition overrideTransactions :: "Transaction list \<Rightarrow> world \<Rightarrow> world" where
  "overrideTransactions transactions w = setTransactions transactions w"

definition deleteTransaction :: "platform \<Rightarrow> string \<Rightarrow> world \<Rightarrow> Transaction list \<times> world" where
  "deleteTransaction P i w =
     (let (current, w') = getTransactions P w;
          updated = filter (\<lambda>t. tx_id t \<noteq> JStr i) current
      in (updated, setTransactions updated w'))"

definition clearAllTransactions :: "world \<Rightarrow> world" where
  "clearAllTransactions w = setTransactions [] w"

definition getSettings :: "world \<Rightarrow> (string \<times> json) list" where
  "getSettings w =
     (case localStorage w SETTINGS_KEY of
        None \<Rightarrow> DEFAULT_SETTINGS
      | Some data \<Rightarrow>
          if data = NotJSON [] then DEFAULT_SETTINGS
          else
            (case JSON_parse data of
               Inl e \<Rightarrow> DEFAULT_SETTINGS
             | Inr v \<Rightarrow> spread (spread [] (JObj DEFAULT_SETTINGS)) v))"

definition saveSettings :: "(string \<times> json) list \<Rightarrow> world \<Rightarrow> world" where
  "saveSettings settings w =
     w\<lparr>localStorage := (localStorage w)(SETTINGS_KEY \<mapsto> JSON_stringify (JObj settings))\<rparr>"

section \<open>Exchange-rate service (services/currency.ts)\<close>

definition FRANKFURTER_API_URL :: string where
  "FRANKFURTER_API_URL = ''https://api.frankfurter.app''"

definition FALLBACK_RATES :: "(string \<times> real) list" where
  "FALLBACK_RATES =
     [(''USD'', 1), (''EUR'', 107 / 100), (''JPY'', 63 / 10000), (''GBP'', 127 / 100),
      (''AUD'', 66 / 100), (''CAD'', 73 / 100), (''CHF'', 111 / 100), (''CNY'', 14 / 100),
      (''IDR'', 62 / 1000000)]"

datatype 'a lookup = Miss | Hit 'a

text \<open>
  The block \<^verbatim>\<open>if (cachedData) { ... }\<close>. It stands outside the \<^verbatim>\<open>try\<close>: a text that does
  not parse, or that parses to \<^verbatim>\<open>null\<close>, makes the call fail. \<^verbatim>\<open>Date.now() - timestamp\<close>
  converts the stored time stamp to a number; against \<open>NaN\<close> the comparison is false.
\<close>

definition cached :: "platform \<Rightarrow> world \<Rightarrow> string \<Rightarrow> error + json option lookup" where
  "cached P w cacheKey =
     (case sessionStorage w cacheKey of
        None \<Rightarrow> Inr Miss
      | Some cachedData \<Rightarrow>
          if cachedData = NotJSON [] then Inr Miss
          else
            (case JSON_parse cachedData of
               Inl e \<Rightarrow> Inl e
             | Inr v \<Rightarrow>
                 (case getprop v ''rates'' of
                    Inl e \<Rightarrow> Inl e
                  | Inr rates \<Rightarrow>
                      (case Number P (field v ''timestamp'') of
                         Inl e \<Rightarrow> Inl e
                       | Inr None \<Rightarrow> Inr Miss
                       | Inr (Some timestamp) \<Rightarrow>
                           if real_of_int (now w) - timestamp < 60 * 60 * 1000
                           then Inr (Hit rates) else Inr Miss))))"

text \<open>
  The part of the \<^verbatim>\<open>try\<close> block between the request and the cache write: \<open>reply\<close> is
  what \<^verbatim>\<open>fetch\<close> resolved to (\<open>None\<close> when it rejected). \<^verbatim>\<open>delete data.rates[base]\<close>
  throws when \<^verbatim>\<open>data.rates\<close> is \<^verbatim>\<open>undefined\<close> or \<^verbatim>\<open>null\<close>.
\<close>

definition live_rates :: "CurrencyCode \<Rightarrow> response option \<Rightarrow> error + (string \<times> json) list" where
  "live_rates base reply =
     (case reply of
        None \<Rightarrow> Inl FetchRejected
      | Some response \<Rightarrow>
          if \<not> ok response then Inl HttpError
          else
            (case JSON_parse (body response) of
               Inl e \<Rightarrow> Inl e
             | Inr data \<Rightarrow>
                 (case getprop data ''rates'' of
                    Inl e \<Rightarrow> Inl e
                  | Inr None \<Rightarrow> Inl TypeError
                  | Inr (Some JNull) \<Rightarrow> Inl TypeError
                  | Inr (Some rates) \<Rightarrow>
                      Inr (assign (spread [] (delete_prop rates (code base))) (code base) (JNum 1)))))"

text \<open>The \<^verbatim>\<open>catch\<close> block.\<close>

definition relativeFallbackRates :: "CurrencyCode \<Rightarrow> (string \<times> json) list" where
  "relativeFallbackRates base =
     (let baseRate = (case map_of FALLBACK_RATES (code base) of
                        None \<Rightarrow> 1
                      | Some r \<Rightarrow> if r \<noteq> 0 then r else 1)
      in foldl (\<lambda>obj (currency, r). assign obj currency (JNum (r / baseRate))) [] FALLBACK_RATES)"

text \<open>
  \<^verbatim>\<open>getLatestRates\<close>. \<open>net\<close> is the network at the time of the call and \<open>elapsed\<close> the
  time the \<^verbatim>\<open>await\<close>s took, so the time stamp written is the clock after the response.
  The result is the value returned (\<open>None\<close> for \<^verbatim>\<open>undefined\<close>) and the new state, or the
  error the promise rejects with.
\<close>

definition getLatestRates ::
  "platform \<Rightarrow> network \<Rightarrow> int \<Rightarrow> CurrencyCode \<Rightarrow> world \<Rightarrow> error + (json option \<times> world)" where
  "getLatestRates P net elapsed base w =
     (let cacheKey = ''exchange_rates_'' @ code base in
      case cached P w cacheKey of
        Inl e \<Rightarrow> Inl e
      | Inr (Hit rates) \<Rightarrow> Inr (rates, w)
      | Inr Miss \<Rightarrow>
          (let url = FRANKFURTER_API_URL @ ''/latest?from='' @ code base;
               w' = w\<lparr>now := now w + elapsed, requested := requested w @ [url]\<rparr>
           in case live_rates base (net url) of
                Inr ratesWithBase \<Rightarrow>
                  Inr (Some (JObj ratesWithBase),
                       w'\<lparr>sessionStorage := (sessionStorage w')(cacheKey \<mapsto>
                            JSON_stringify (JObj [(''rates'', JObj ratesWithBase),
                                                  (''timestamp'', JNum (real_of_int (now w')))]))\<rparr>)
              | Inl e \<Rightarrow> Inr (Some (JObj (relativeFallbackRates base)), w')))"

text \<open>
  The states of a browsing session: the session storage starts empty and only
  \<^verbatim>\<open>getLatestRates\<close> writes to it; the clock, the local storage and the rest change freely.
\<close>

inductive session :: "platform \<Rightarrow> world \<Rightarrow> bool" for P :: platform where
  start: "sessionStorage w = Map.empty \<Longrightarrow> session P w"
| call: "session P w \<Longrightarrow> getLatestRates P net elapsed base w = Inr (r, w') \<Longrightarrow> session P w'"
| other: "session P w \<Longrightarrow> sessionStorage w' = sessionStorage w \<Longrightarrow> session P w'"

section \<open>Offline cache worker (public/sw.js)\<close>

definition STATIC_ASSETS :: "string list" where
  "STATIC_ASSETS = [''/'', ''/index.html'', ''/manifest.json'', ''/icon-192.png'', ''/icon-512.png'']"

text \<open>
  A request as the handler reads it: \<^verbatim>\<open>request.method\<close>, the protocol and host name of
  \<^verbatim>\<open>new URL(request.url)\<close>, \<^verbatim>\<open>request.mode\<close>, and the URL, which is the key a cache
  matches on. A path such as \<^verbatim>\<open>'/index.html'\<close> is resolved against the worker's origin.
\<close>

record request =
  req_method :: string
  req_protocol :: string
  req_hostname :: string
  req_mode :: string
  req_url :: string

definition resolve :: "string \<Rightarrow> string \<Rightarrow> string" where
  "resolve origin path = origin @ path"

text \<open>The two partitions, \<^verbatim>\<open>STATIC_CACHE\<close> and \<^verbatim>\<open>DYNAMIC_CACHE\<close>.\<close>

record caches =
  static_cache :: "string \<rightharpoonup> response"
  dynamic_cache :: "string \<rightharpoonup> response"

definition no_caches :: caches where
  "no_caches = \<lparr>static_cache = Map.empty, dynamic_cache = Map.empty\<rparr>"

text \<open>\<^verbatim>\<open>caches.match(request)\<close> looks through every cache, in the order of their creation.\<close>

definition caches_match :: "caches \<Rightarrow> string \<Rightarrow> response option" where
  "caches_match c u = (case static_cache c u of Some r \<Rightarrow> Some r | None \<Rightarrow> dynamic_cache c u)"

text \<open>
  \<^verbatim>\<open>cache.addAll\<close> fetches every URL and stores the responses only when all of them
  arrived with an ok status; otherwise it rejects and stores nothing.
\<close>

fun fetch_all :: "network \<Rightarrow> string list \<Rightarrow> (string \<times> response) list option" where
  "fetch_all net [] = Some []"
| "fetch_all net (u # us) =
     (case net u of
        None \<Rightarrow> None
      | Some r \<Rightarrow>
          if \<not> ok r then None
          else (case fetch_all net us of None \<Rightarrow> None | Some rs \<Rightarrow> Some ((u, r) # rs)))"

definition addAll :: "network \<Rightarrow> string list \<Rightarrow> (string \<rightharpoonup> response) \<Rightarrow> (string \<rightharpoonup> response) option" where
  "addAll net urls cache =
     (case fetch_all net urls of
        None \<Rightarrow> None
      | Some rs \<Rightarrow> Some (foldl (\<lambda>m (u, r). m(u \<mapsto> r)) cache rs))"

text \<open>The install handler; \<open>None\<close> when the installation fails.\<close>

definition install :: "string \<Rightarrow> network \<Rightarrow> caches \<Rightarrow> caches option" where
  "install origin net c =
     (case addAll net (map (resolve origin) STATIC_ASSETS) (static_cache c) of
        None \<Rightarrow> None
      | Some cache \<Rightarrow> Some (c\<lparr>static_cache := cache\<rparr>))"

text \<open>\<^verbatim>\<open>s.includes(sub)\<close>.\<close>

fun str_includes :: "string \<Rightarrow> string \<Rightarrow> bool" where
  "str_includes [] sub = (sub = [])"
| "str_includes (c # cs) sub = (take (length sub) (c # cs) = sub \<or> str_includes cs sub)"

text \<open>
  What the fetch handler does with a request: it leaves it to the browser, or it answers
  with \<^verbatim>\<open>event.respondWith\<close>. An answer that resolves to \<^verbatim>\<open>undefined\<close> (\<open>None\<close>) is a
  network error for the page.
\<close>

datatype outcome = NotHandled | Responded "response option"

definition put_dynamic :: "string \<Rightarrow> response \<Rightarrow> caches \<Rightarrow> caches" where
  "put_dynamic u r c = c\<lparr>dynamic_cache := (dynamic_cache c)(u \<mapsto> r)\<rparr>"

definition fetch_handler :: "string \<Rightarrow> network \<Rightarrow> request \<Rightarrow> caches \<Rightarrow> outcome \<times> caches" where
  "fetch_handler origin net request c =
     (if req_method request \<noteq> ''GET'' then (NotHandled, c)
      else if req_protocol request = ''chrome-extension:'' then (NotHandled, c)
      else if str_includes (req_hostname request) ''googleapis.com''
              \<or> str_includes (req_hostname request) ''generativelanguage.googleapis.com''
      then (case net (req_url request) of
              Some response \<Rightarrow>
                (Responded (Some response),
                 if ok response then put_dynamic (req_url request) response c else c)
            | None \<Rightarrow> (Responded (caches_match c (req_url request)), c))
      else if req_mode request = ''navigate''
      then (case net (req_url request) of
              Some response \<Rightarrow>
                (Responded (Some response), put_dynamic (req_url request) response c)
            | None \<Rightarrow>
                (Responded (case dynamic_cache c (req_url request) of
                              Some r \<Rightarrow> Some r
                            | None \<Rightarrow> dynamic_cache c (resolve origin ''/index.html'')), c))
      else (case caches_match c (req_url request) of
              Some cachedResponse \<Rightarrow> (Responded (Some cachedResponse), c)
            | None \<Rightarrow>
                (case net (req_url request) of
                   Some response \<Rightarrow>
                     (Responded (Some response),
                      if \<not> ok response then c else put_dynamic (req_url request) response c)
                 | None \<Rightarrow> (Responded (caches_match c (req_url request)), c))))"

section \<open>Names used in the statements\<close>

text \<open>The session-storage key and the URL that \<^verbatim>\<open>getLatestRates\<close> builds for a base.\<close>

definition cacheKey :: "CurrencyCode \<Rightarrow> string" where
  "cacheKey base = ''exchange_rates_'' @ code base"

definition rates_url :: "CurrencyCode \<Rightarrow> string" where
  "rates_url base = FRANKFURTER_API_URL @ ''/latest?from='' @ code base"

text \<open>
  The shape of every cache entry that \<^verbatim>\<open>getLatestRates\<close> writes: an object with the
  rate table, whose entry for the base is 1, and a numeric time stamp.
\<close>

definition entry_ok :: "CurrencyCode \<Rightarrow> rawtext \<Rightarrow> bool" where
  "entry_ok base d =
     (\<exists>rs ts. d = JSONText (JObj [(''rates'', JObj rs), (''timestamp'', JNum ts)])
              \<and> map_of rs (code base) = Some (JNum 1))"

definition cache_ok :: "world \<Rightarrow> bool" where
  "cache_ok w = (\<forall>base d. sessionStorage w (cacheKey base) = Some d \<longrightarrow> entry_ok base d)"

text \<open>
  A transaction whose \<^verbatim>\<open>id\<close>, \<^verbatim>\<open>description\<close>, \<^verbatim>\<open>category\<close>, \<^verbatim>\<open>date\<close> and \<^verbatim>\<open>currency\<close>
  are truthy (a string among them is not empty), a platform whose identifiers and time
  stamps are not empty strings, and the defaulting rule of the specification: a value is
  the raw one when that is truthy and the default otherwise. \<open>sanitized_as\<close> lists the
  rule of each field of an entry; \<open>n\<close> is the number of the identifier drawn for it and
  \<open>clock\<close> the current time.
\<close>

definition truthy_fields :: "Transaction \<Rightarrow> bool" where
  "truthy_fields t =
     (truthy (Some (tx_id t)) \<and> truthy (Some (tx_description t)) \<and> truthy (Some (tx_category t))
      \<and> truthy (Some (tx_date t)) \<and> truthy (Some (tx_currency t)))"

definition platform_ok :: "platform \<Rightarrow> bool" where
  "platform_ok P = ((\<forall>n. randomUUID P n \<noteq> []) \<and> (\<forall>t. toISOString P t \<noteq> []))"

definition defaulted :: "json option \<Rightarrow> json \<Rightarrow> json \<Rightarrow> bool" where
  "defaulted raw d x = ((truthy raw \<longrightarrow> raw = Some x) \<and> (\<not> truthy raw \<longrightarrow> x = d))"

definition sanitized_as :: "platform \<Rightarrow> int \<Rightarrow> nat \<Rightarrow> json \<Rightarrow> Transaction \<Rightarrow> bool" where
  "sanitized_as P clock n t x =
     (defaulted (field t ''id'') (JStr (randomUUID P n)) (tx_id x)
      \<and> tx_amount x = (case Number P (field t ''amount'') of Inr (Some a) \<Rightarrow> a | _ \<Rightarrow> 0)
      \<and> defaulted (field t ''description'') (JStr ''Tanpa Keterangan'') (tx_description x)
      \<and> defaulted (field t ''category'') (JStr ''Lainnya'') (tx_category x)
      \<and> defaulted (field t ''date'') (JStr (toISOString P clock)) (tx_date x)
      \<and> (tx_type x = INCOME \<longleftrightarrow> field t ''type'' = Some (JStr ''income''))
      \<and> (tx_type x = EXPENSE \<longleftrightarrow> field t ''type'' \<noteq> Some (JStr ''income''))
      \<and> defaulted (field t ''currency'') (JStr ''IDR'') (tx_currency x))"

definition falsy_ids :: "json list \<Rightarrow> nat" where
  "falsy_ids raw = length (filter (\<lambda>t. \<not> truthy (field t ''id'')) raw)"

section \<open>A sample environment\<close>

text \<open>
  A platform, a fresh browser state and two networks on which the properties below are
  evaluated: one that is unreachable, one where the rate service answers for USD. On this
  platform no string, array or object converts to a number; the values evaluated below
  hold amounts and time stamps that are numbers, booleans or missing.
\<close>

definition browser :: platform where
  "browser = \<lparr>ToNumber = (\<lambda>v. Inr None), randomUUID = (\<lambda>n. ''uuid-'' @ decimal n),
              toISOString = (\<lambda>t. ''time-'' @ decimal (nat t))\<rparr>"

definition fresh_world :: world where
  "fresh_world = \<lparr>localStorage = Map.empty, sessionStorage = Map.empty, now = 0,
                   uuids_drawn = 0, requested = []\<rparr>"

definition offline :: network where
  "offline u = None"

definition rates_online :: network where
  "rates_online u =
     (if u = rates_url USD
      then Some \<lparr>ok = True,
                 body = JSONText (JObj [(''amount'', JNum 1), (''base'', JStr ''USD''),
                          (''rates'', JObj [(''EUR'', JNum (92 / 100)), (''IDR'', JNum 16000)])])\<rparr>
      else None)"

definition usd_table :: "(string \<times> json) list" where
  "usd_table = [(''EUR'', JNum (92 / 100)), (''IDR'', JNum 16000), (''USD'', JNum 1)]"

text \<open>The state after a first, successful call for USD that took 120 ms.\<close>

definition after_first_call :: world where
  "after_first_call =
     (case getLatestRates browser rates_online 120 USD fresh_world of
        Inl e \<Rightarrow> fresh_world
      | Inr (r, w) \<Rightarrow> w)"

text \<open>Transactions and stored lists on which the persistence service is evaluated.\<close>

definition sample_tx :: Transaction where
  "sample_tx =
     \<lparr>tx_id = JStr ''a1'', tx_amount = 25000, tx_description = JStr ''Kopi'',
      tx_category = JStr ''Makanan'', tx_date = JStr ''2025-01-01T00:00:00.000Z'',
      tx_type = EXPENSE, tx_currency = JStr ''IDR''\<rparr>"

definition other_tx :: Transaction where
  "other_tx =
     \<lparr>tx_id = JStr ''b2'', tx_amount = 100, tx_description = JStr ''Gaji'',
      tx_category = JStr ''Pendapatan'', tx_date = JStr ''2025-01-02T00:00:00.000Z'',
      tx_type = INCOME, tx_currency = JStr ''USD''\<rparr>"

definition blank_tx :: Transaction where
  "blank_tx = sample_tx\<lparr>tx_description := JStr []\<rparr>"

text \<open>The stored text \<^verbatim>\<open>[{"id": 5, "amount": true, "type": "income"}]\<close>.\<close>

definition odd_store :: world where
  "odd_store =
     fresh_world\<lparr>localStorage := [STORAGE_KEY \<mapsto>
        JSONText (JArr [JObj [(''id'', JNum 5), (''amount'', JBool True),
                              (''type'', JStr ''income'')]])]\<rparr>"

text \<open>The stored text \<^verbatim>\<open>[{"id": "", "amount": 12, "type": "income"}, {"description": "Gaji"}]\<close>.\<close>

definition sparse_entries :: "json list" where
  "sparse_entries =
     [JObj [(''id'', JStr []), (''amount'', JNum 12), (''type'', JStr ''income'')],
      JObj [(''description'', JStr ''Gaji'')]]"

definition sparse_store :: world where
  "sparse_store = fresh_world\<lparr>localStorage := [STORAGE_KEY \<mapsto> JSONText (JArr sparse_entries)]\<rparr>"

text \<open>The worker's origin, a network that serves the shell, and a navigation to the root.\<close>

definition test_origin :: string where
  "test_origin = ''https://sakuku.example''"

definition shell_online :: network where
  "shell_online u =
     (if u \<in> set (map (resolve test_origin) STATIC_ASSETS)
      then Some \<lparr>ok = True, body = NotJSON (''content of '' @ u)\<rparr> else None)"

definition root_navigation :: request where
  "root_navigation =
     \<lparr>req_method = ''GET'', req_protocol = ''https:'', req_hostname = ''sakuku.example'',
      req_mode = ''navigate'', req_url = resolve test_origin ''/''\<rparr>"

text \<open>The caches after the worker was installed while the network was reachable.\<close>

definition installed :: caches where
  "installed = (case install test_origin shell_online no_caches of None \<Rightarrow> no_caches | Some c \<Rightarrow> c)"

section \<open>Properties of the currency conversion\<close>

lemma code_inject: "code a = code b \<longleftrightarrow> a = b"
  by (cases a; cases b) simp_all

text \<open>
  C1, as the specification states it, fails: with both rates present and the currencies
  different the result is to be \<open>(A / rate[X]) * rate[Y]\<close>, and 0 only before the first
  rates have arrived. While rates are loaded again, after the first table has arrived,
  converting 100 EUR to USD with the table \<open>{USD: 1, EUR: 0.92}\<close> gives 0.
\<close>

theorem C1_zero_while_reloading:
  "exchangeRates reloading_state = Some [(''USD'', 1), (''EUR'', 92 / 100)]
   \<and> map_of [(''USD'', 1), (''EUR'', 92 / 100 :: real)] (code EUR) = Some (92 / 100)
   \<and> map_of [(''USD'', 1 :: real), (''EUR'', 92 / 100)] (code USD) = Some 1
   \<and> fst (convertAmount reloading_state 100 EUR USD) = 0
   \<and> fst (convertAmount reloading_state 100 EUR USD) \<noteq> (100 / (92 / 100)) * 1"
  by (simp add: reloading_state_def fetchRates_begin_def fetchRates_done_def
      initial_state_def convertAmount_def)

text \<open>
  C1, amended: converting to the same currency is the identity, whatever the rates. For
  different currencies the result is 0, without a warning, whenever no table has arrived
  yet or a load is in progress (the first load or a later one); otherwise it is
  \<open>(A / rate[X]) * rate[Y]\<close> when both rates are present and not 0, and the original
  amount with a warning when a rate is missing or 0. No case throws.
\<close>

theorem C1_convertAmount:
  "(X = Y \<longrightarrow> convertAmount st A X Y = (A, False))
   \<and> (X \<noteq> Y \<and> (exchangeRates st = None \<or> isLoadingRates st)
        \<longrightarrow> convertAmount st A X Y = (0, False))
   \<and> (X \<noteq> Y \<and> exchangeRates st = Some rates \<and> \<not> isLoadingRates st
        \<and> map_of rates (code X) = Some rx \<and> map_of rates (code Y) = Some ry
        \<and> rx \<noteq> 0 \<and> ry \<noteq> 0
        \<longrightarrow> convertAmount st A X Y = ((A / rx) * ry, False))
   \<and> (X \<noteq> Y \<and> exchangeRates st = Some rates \<and> \<not> isLoadingRates st
        \<and> (map_of rates (code X) \<in> {None, Some 0} \<or> map_of rates (code Y) \<in> {None, Some 0})
        \<longrightarrow> convertAmount st A X Y = (A, True))"
  by (auto simp: convertAmount_def split: option.splits)

theorem C1_convertAmount_witness:
  "convertAmount initial_state 7 USD USD = (7, False)
   \<and> convertAmount initial_state 7 EUR USD = (0, False)
   \<and> convertAmount (fetchRates_done [(''USD'', 1), (''EUR'', 92 / 100)] initial_state) 100 EUR USD
       = ((100 / (92 / 100)) * 1, False)
   \<and> convertAmount (fetchRates_done [(''USD'', 1)] initial_state) 100 EUR USD = (100, True)"
proof -
  let ?full = "fetchRates_done [(''USD'', 1), (''EUR'', 92 / 100)] initial_state"
  let ?part = "fetchRates_done [(''USD'', 1)] initial_state"
  have a: "convertAmount initial_state 7 USD USD = (7, False)"
    using C1_convertAmount [of USD USD initial_state 7] by simp
  have b: "convertAmount initial_state 7 EUR USD = (0, False)"
    using C1_convertAmount [of EUR USD initial_state 7]
    by (simp add: initial_state_def)
  have c: "convertAmount ?full 100 EUR USD = ((100 / (92 / 100)) * 1, False)"
    using C1_convertAmount [of EUR USD ?full 100 "[(''USD'', 1), (''EUR'', 92 / 100)]" "92 / 100" 1]
    by (simp add: fetchRates_done_def initial_state_def)
  have d: "convertAmount ?part 100 EUR USD = (100, True)"
    using C1_convertAmount [of EUR USD ?part 100 "[(''USD'', 1)]"]
    by (simp add: fetchRates_done_def initial_state_def)
  from a b c d show ?thesis by simp
qed


section \<open>Properties of the exchange-rate service\<close>

lemma cacheKey_inject: "cacheKey a = cacheKey b \<longleftrightarrow> a = b"
  by (simp add: cacheKey_def code_inject)

lemma map_of_assign: "map_of (assign obj k v) = (map_of obj)(k \<mapsto> v)"
  by (induction obj k v rule: assign.induct) auto

lemma fallback_base_rate:
  "map_of FALLBACK_RATES (code base)
     = Some (case base of IDR \<Rightarrow> 62 / 1000000 | USD \<Rightarrow> 1 | EUR \<Rightarrow> 107 / 100)"
  by (cases base) (simp_all add: FALLBACK_RATES_def)

lemma fallback_table:
  assumes "map_of FALLBACK_RATES (code base) = Some b"
  shows "relativeFallbackRates base = map (\<lambda>(c, r). (c, JNum (r / b))) FALLBACK_RATES"
proof -
  have b: "b = (case base of IDR \<Rightarrow> 62 / 1000000 | USD \<Rightarrow> 1 | EUR \<Rightarrow> 107 / 100)"
    using assms fallback_base_rate [of base] by simp
  show ?thesis unfolding b
    by (cases base) (simp_all add: relativeFallbackRates_def FALLBACK_RATES_def)
qed

lemma fallback_base_one: "map_of (relativeFallbackRates base) (code base) = Some (JNum 1)"
  by (cases base) (simp_all add: relativeFallbackRates_def FALLBACK_RATES_def)

lemma live_rates_base_one: "live_rates base reply = Inr t \<Longrightarrow> map_of t (code base) = Some (JNum 1)"
  by (auto simp: live_rates_def map_of_assign split: option.splits if_splits sum.splits json.splits)

text \<open>
  A rejected fetch, a status that is not ok and a body that is not JSON each make the
  \<^verbatim>\<open>try\<close> block fail.
\<close>

lemma live_rates_fails:
  assumes "reply = None \<or> (\<exists>r. reply = Some r \<and> (\<not> ok r \<or> (\<exists>s. body r = NotJSON s)))"
  shows "\<exists>e. live_rates base reply = Inl e"
  using assms by (auto simp: live_rates_def JSON_parse_def)

lemma cached_ok:
  assumes "cache_ok w"
  shows "cached P w (cacheKey base) = Inr Miss
         \<or> (\<exists>rs. cached P w (cacheKey base) = Inr (Hit (Some (JObj rs))) \<and> map_of rs (code base) = Some (JNum 1))"
proof (cases "sessionStorage w (cacheKey base)")
  case None
  then show ?thesis by (simp add: cached_def)
next
  case (Some d)
  with assms have "entry_ok base d" by (simp add: cache_ok_def)
  then obtain rs ts where d: "d = JSONText (JObj [(''rates'', JObj rs), (''timestamp'', JNum ts)])"
    and one: "map_of rs (code base) = Some (JNum 1)"
    by (auto simp: entry_ok_def)
  show ?thesis using Some one
    by (simp add: cached_def d JSON_parse_def field_def)
qed

lemma getLatestRates_cases:
  "getLatestRates P net elapsed base w =
     (case cached P w (cacheKey base) of
        Inl e \<Rightarrow> Inl e
      | Inr (Hit rates) \<Rightarrow> Inr (rates, w)
      | Inr Miss \<Rightarrow>
          (case live_rates base (net (rates_url base)) of
             Inr t \<Rightarrow> Inr (Some (JObj t),
                 w\<lparr>now := now w + elapsed, requested := requested w @ [rates_url base],
                   sessionStorage := (sessionStorage w)(cacheKey base \<mapsto>
                      JSONText (JObj [(''rates'', JObj t), (''timestamp'', JNum (real_of_int (now w + elapsed)))]))\<rparr>)
           | Inl e \<Rightarrow> Inr (Some (JObj (relativeFallbackRates base)),
                 w\<lparr>now := now w + elapsed, requested := requested w @ [rates_url base]\<rparr>)))"
  by (simp add: getLatestRates_def cacheKey_def rates_url_def Let_def JSON_stringify_def
      split: sum.splits lookup.splits)

lemma getLatestRates_preserves:
  assumes ok: "cache_ok w" and run: "getLatestRates P net elapsed base w = Inr (r, w')"
  shows "cache_ok w'"
proof (cases "cached P w (cacheKey base)")
  case (Inl e)
  then show ?thesis using run by (simp add: getLatestRates_cases)
next
  case (Inr l)
  show ?thesis
  proof (cases l)
    case (Hit rates)
    then show ?thesis using run Inr ok by (simp add: getLatestRates_cases)
  next
    case Miss
    show ?thesis
    proof (cases "live_rates base (net (rates_url base))")
      case (Inl e)
      then have "sessionStorage w' = sessionStorage w"
        using run Inr Miss by (auto simp: getLatestRates_cases)
      then show ?thesis using ok by (simp add: cache_ok_def)
    next
      case t: (Inr t)
      have one: "map_of t (code base) = Some (JNum 1)" by (rule live_rates_base_one [OF t])
      have "sessionStorage w' = (sessionStorage w)(cacheKey base \<mapsto>
              JSONText (JObj [(''rates'', JObj t), (''timestamp'', JNum (real_of_int (now w + elapsed)))]))"
        using run Inr Miss t by (auto simp: getLatestRates_cases)
      then show ?thesis using ok one
        by (auto simp: cache_ok_def cacheKey_inject entry_ok_def)
    qed
  qed
qed

lemma session_cache_ok: "session P w \<Longrightarrow> cache_ok w"
proof (induction rule: session.induct)
  case (start w)
  then show ?case by (simp add: cache_ok_def)
next
  case (call w net elapsed base r w')
  then show ?case using getLatestRates_preserves by blast
next
  case (other w w')
  then show ?case by (simp add: cache_ok_def)
qed

text \<open>
  C5: in every state of a session, whatever the network answers, \<^verbatim>\<open>getLatestRates\<close>
  returns (it does not fail), and the table it returns, from the cache, from the service
  or from the static table, has the entry 1 for the base currency.
\<close>

theorem C5_base_rate_is_one:
  assumes "session P w"
  shows "\<exists>rates w'. getLatestRates P net elapsed base w = Inr (Some (JObj rates), w')
           \<and> map_of rates (code base) = Some (JNum 1)"
proof -
  have ok: "cache_ok w" using assms by (rule session_cache_ok)
  from cached_ok [OF ok, of P base] show ?thesis
  proof
    assume miss: "cached P w (cacheKey base) = Inr Miss"
    show ?thesis
    proof (cases "live_rates base (net (rates_url base))")
      case (Inl e)
      then show ?thesis using miss by (simp add: getLatestRates_cases fallback_base_one)
    next
      case (Inr t)
      then show ?thesis using miss live_rates_base_one [OF Inr] by (simp add: getLatestRates_cases)
    qed
  next
    assume "\<exists>rs. cached P w (cacheKey base) = Inr (Hit (Some (JObj rs))) \<and> map_of rs (code base) = Some (JNum 1)"
    then show ?thesis by (auto simp: getLatestRates_cases)
  qed
qed


theorem C5_base_rate_is_one_witness:
  "session browser fresh_world
   \<and> (\<exists>rates w'. getLatestRates browser rates_online 120 USD fresh_world
                     = Inr (Some (JObj rates), w')
                 \<and> map_of rates (code USD) = Some (JNum 1))"
proof -
  have s: "session browser fresh_world"
    by (rule session.start) (simp add: fresh_world_def)
  from s C5_base_rate_is_one [OF s, of rates_online 120 USD] show ?thesis by simp
qed

text \<open>
  C6: when the call reaches the network (no fresh cache entry) and the \<^verbatim>\<open>try\<close> block
  fails (the fetch is rejected, the status is not ok, the body does not parse, or it has no
  rates), no error reaches the caller: the result is the static table with every entry
  divided by the base's static rate, and its entry for the base is 1.
\<close>

theorem C6_fallback_table:
  assumes "cached P w (cacheKey base) = Inr Miss"
      and "live_rates base (net (rates_url base)) = Inl e"
  shows "\<exists>b. map_of FALLBACK_RATES (code base) = Some b \<and> b \<noteq> 0
           \<and> getLatestRates P net elapsed base w
               = Inr (Some (JObj (map (\<lambda>(c, r). (c, JNum (r / b))) FALLBACK_RATES)),
                      w\<lparr>now := now w + elapsed, requested := requested w @ [rates_url base]\<rparr>)
           \<and> map_of (map (\<lambda>(c, r). (c, JNum (r / b))) FALLBACK_RATES) (code base) = Some (JNum 1)"
proof -
  let ?b = "case base of IDR \<Rightarrow> 62 / 1000000 | USD \<Rightarrow> 1 | EUR \<Rightarrow> 107 / (100 :: real)"
  have b: "map_of FALLBACK_RATES (code base) = Some ?b" by (rule fallback_base_rate)
  have nz: "?b \<noteq> 0" by (cases base) simp_all
  have tab: "relativeFallbackRates base = map (\<lambda>(c, r). (c, JNum (r / ?b))) FALLBACK_RATES"
    by (rule fallback_table [OF b])
  have run: "getLatestRates P net elapsed base w
               = Inr (Some (JObj (relativeFallbackRates base)),
                      w\<lparr>now := now w + elapsed, requested := requested w @ [rates_url base]\<rparr>)"
    using assms by (simp add: getLatestRates_cases)
  have one: "map_of (relativeFallbackRates base) (code base) = Some (JNum 1)"
    by (rule fallback_base_one)
  show ?thesis using b nz run one unfolding tab by blast
qed

lemma fresh_miss: "cached P fresh_world k = Inr Miss"
  by (simp add: cached_def fresh_world_def)

theorem C6_fallback_table_witness:
  "cached browser fresh_world (cacheKey EUR) = Inr Miss
   \<and> live_rates EUR (offline (rates_url EUR)) = Inl FetchRejected
   \<and> getLatestRates browser offline 250 EUR fresh_world
       = Inr (Some (JObj (map (\<lambda>(c, r). (c, JNum (r / (107 / 100)))) FALLBACK_RATES)),
              fresh_world\<lparr>now := now fresh_world + 250,
                           requested := requested fresh_world @ [rates_url EUR]\<rparr>)"
proof -
  have m: "cached browser fresh_world (cacheKey EUR) = Inr Miss" by (rule fresh_miss)
  have f: "live_rates EUR (offline (rates_url EUR)) = Inl FetchRejected"
    by (simp add: live_rates_def offline_def)
  have b: "map_of FALLBACK_RATES (code EUR) = Some (107 / 100)"
    by (simp add: FALLBACK_RATES_def)
  from C6_fallback_table [where P = browser and w = fresh_world and base = EUR and net = offline
      and e = FetchRejected and elapsed = 250, OF m f]
  obtain b' where b': "map_of FALLBACK_RATES (code EUR) = Some b'"
    and run: "getLatestRates browser offline 250 EUR fresh_world
       = Inr (Some (JObj (map (\<lambda>(c, r). (c, JNum (r / b'))) FALLBACK_RATES)),
              fresh_world\<lparr>now := now fresh_world + 250,
                           requested := requested fresh_world @ [rates_url EUR]\<rparr>)"
    by blast
  from b b' have "b' = 107 / 100" by simp
  with run m f show ?thesis by simp
qed

text \<open>
  C4: after a call that fetched the rates successfully (one request), a second call for the
  same base in the same session returns the cached table without a request when the clock
  reads less than one hour more than the stored time stamp, and issues a request when it
  reads one hour more or later.
\<close>

theorem C4_cache_one_hour:
  assumes miss: "cached P w (cacheKey base) = Inr Miss"
      and live: "live_rates base (net1 (rates_url base)) = Inr table"
      and first: "getLatestRates P net1 elapsed1 base w = Inr (r1, w1)"
      and same: "sessionStorage w2 (cacheKey base) = sessionStorage w1 (cacheKey base)"
  shows "requested w1 = requested w @ [rates_url base]
         \<and> (now w2 - now w1 < 60 * 60 * 1000
              \<longrightarrow> getLatestRates P net2 elapsed2 base w2 = Inr (r1, w2))
         \<and> (\<not> now w2 - now w1 < 60 * 60 * 1000
              \<longrightarrow> (\<exists>r2 w3. getLatestRates P net2 elapsed2 base w2 = Inr (r2, w3)
                     \<and> requested w3 = requested w2 @ [rates_url base]))"
proof -
  have r1: "r1 = Some (JObj table)"
    and w1: "w1 = w\<lparr>now := now w + elapsed1, requested := requested w @ [rates_url base],
                   sessionStorage := (sessionStorage w)(cacheKey base \<mapsto>
                      JSONText (JObj [(''rates'', JObj table),
                                      (''timestamp'', JNum (real_of_int (now w + elapsed1)))]))\<rparr>"
    using miss live first by (simp_all add: getLatestRates_cases)
  have entry: "sessionStorage w2 (cacheKey base)
                 = Some (JSONText (JObj [(''rates'', JObj table),
                                         (''timestamp'', JNum (real_of_int (now w1)))]))"
    using same by (simp add: w1)
  have c2: "cached P w2 (cacheKey base)
              = (if now w2 - now w1 < 60 * 60 * 1000 then Inr (Hit (Some (JObj table))) else Inr Miss)"
  proof -
    have "(real_of_int (now w2) - real_of_int (now w1) < 60 * 60 * 1000)
            = (now w2 - now w1 < 60 * 60 * 1000)"
      by linarith
    then show ?thesis
      by (simp add: cached_def entry JSON_parse_def field_def)
  qed
  have a: "requested w1 = requested w @ [rates_url base]" by (simp add: w1)
  have b: "now w2 - now w1 < 60 * 60 * 1000
             \<longrightarrow> getLatestRates P net2 elapsed2 base w2 = Inr (r1, w2)"
    by (simp add: getLatestRates_cases c2 r1)
  have c: "\<not> now w2 - now w1 < 60 * 60 * 1000
             \<longrightarrow> (\<exists>r2 w3. getLatestRates P net2 elapsed2 base w2 = Inr (r2, w3)
                    \<and> requested w3 = requested w2 @ [rates_url base])"
    by (cases "live_rates base (net2 (rates_url base))") (simp_all add: getLatestRates_cases c2)
  from a b c show ?thesis by blast
qed

lemma first_call:
  "getLatestRates browser rates_online 120 USD fresh_world
     = Inr (Some (JObj usd_table),
            fresh_world\<lparr>now := 120, requested := [rates_url USD],
              sessionStorage := [cacheKey USD \<mapsto>
                JSONText (JObj [(''rates'', JObj usd_table), (''timestamp'', JNum 120)])]\<rparr>)"
  by (simp add: getLatestRates_cases fresh_miss live_rates_def rates_online_def JSON_parse_def
      spread_def usd_table_def)
    (simp add: fresh_world_def)

lemma after_first_call_eq:
  "after_first_call
     = fresh_world\<lparr>now := 120, requested := [rates_url USD],
         sessionStorage := [cacheKey USD \<mapsto>
           JSONText (JObj [(''rates'', JObj usd_table), (''timestamp'', JNum 120)])]\<rparr>"
  by (simp add: after_first_call_def first_call)

theorem C4_cache_one_hour_witness:
  "getLatestRates browser offline 0 USD (after_first_call\<lparr>now := 120 + 3599999\<rparr>)
     = Inr (Some (JObj usd_table), after_first_call\<lparr>now := 120 + 3599999\<rparr>)
   \<and> (\<exists>r2 w3. getLatestRates browser offline 0 USD (after_first_call\<lparr>now := 120 + 3600000\<rparr>)
                  = Inr (r2, w3)
               \<and> requested w3 = requested (after_first_call\<lparr>now := 120 + 3600000\<rparr>) @ [rates_url USD])"
proof -
  have miss: "cached browser fresh_world (cacheKey USD) = Inr Miss" by (rule fresh_miss)
  have live: "live_rates USD (rates_online (rates_url USD)) = Inr usd_table"
    by (simp add: live_rates_def rates_online_def JSON_parse_def spread_def usd_table_def)
  have first: "getLatestRates browser rates_online 120 USD fresh_world
                 = Inr (Some (JObj usd_table), after_first_call)"
    by (simp add: first_call after_first_call_eq)
  have t: "now after_first_call = 120" by (simp add: after_first_call_eq)
  have a: "getLatestRates browser offline 0 USD (after_first_call\<lparr>now := 120 + 3599999\<rparr>)
             = Inr (Some (JObj usd_table), after_first_call\<lparr>now := 120 + 3599999\<rparr>)"
    using C4_cache_one_hour [OF miss live first,
        of "after_first_call\<lparr>now := 120 + 3599999\<rparr>" offline 0, THEN conjunct2, THEN conjunct1] t
    by simp
  have b: "\<exists>r2 w3. getLatestRates browser offline 0 USD (after_first_call\<lparr>now := 120 + 3600000\<rparr>)
                  = Inr (r2, w3)
               \<and> requested w3 = requested (after_first_call\<lparr>now := 120 + 3600000\<rparr>) @ [rates_url USD]"
    using C4_cache_one_hour [OF miss live first,
        of "after_first_call\<lparr>now := 120 + 3600000\<rparr>" offline 0, THEN conjunct2, THEN conjunct2] t
    by simp
  from a b show ?thesis by blast
qed

lemma miss_later:
  assumes "cached P w (cacheKey base) = Inr Miss"
      and "sessionStorage w2 (cacheKey base) = sessionStorage w (cacheKey base)"
      and "now w \<le> now w2"
  shows "cached P w2 (cacheKey base) = Inr Miss"
  using assms
  by (auto simp: cached_def split: option.splits if_splits sum.splits)

text \<open>
  C10: a call that reaches the network and falls back to the static table leaves the session
  storage as it was, so a later call for the same base (the clock not set back) misses the
  cache again and issues a request of its own.
\<close>

theorem C10_fallback_not_cached:
  assumes miss: "cached P w (cacheKey base) = Inr Miss"
      and fail: "live_rates base (net1 (rates_url base)) = Inl e"
      and first: "getLatestRates P net1 elapsed1 base w = Inr (r1, w1)"
      and same: "sessionStorage w2 = sessionStorage w1"
      and later: "now w1 \<le> now w2"
      and el: "0 \<le> elapsed1"
  shows "sessionStorage w1 = sessionStorage w
         \<and> (\<exists>r2 w3. getLatestRates P net2 elapsed2 base w2 = Inr (r2, w3)
               \<and> requested w3 = requested w2 @ [rates_url base])"
proof -
  have w1: "w1 = w\<lparr>now := now w + elapsed1, requested := requested w @ [rates_url base]\<rparr>"
    using miss fail first by (simp add: getLatestRates_cases)
  have a: "sessionStorage w1 = sessionStorage w" by (simp add: w1)
  have "now w \<le> now w2" using later el by (simp add: w1)
  then have m2: "cached P w2 (cacheKey base) = Inr Miss"
    using miss_later [OF miss, of w2] same a by simp
  have b: "\<exists>r2 w3. getLatestRates P net2 elapsed2 base w2 = Inr (r2, w3)
               \<and> requested w3 = requested w2 @ [rates_url base]"
    by (cases "live_rates base (net2 (rates_url base))") (simp_all add: getLatestRates_cases m2)
  from a b show ?thesis by blast
qed

theorem C10_fallback_not_cached_witness:
  "sessionStorage (fresh_world\<lparr>now := 250, requested := [rates_url EUR]\<rparr>)
     = sessionStorage fresh_world
   \<and> (\<exists>r2 w3. getLatestRates browser offline 0 EUR
                  (fresh_world\<lparr>now := 1000, requested := [rates_url EUR]\<rparr>) = Inr (r2, w3)
               \<and> requested w3 = [rates_url EUR] @ [rates_url EUR])"
proof -
  let ?w1 = "fresh_world\<lparr>now := 250, requested := [rates_url EUR]\<rparr>"
  let ?w2 = "fresh_world\<lparr>now := 1000, requested := [rates_url EUR]\<rparr>"
  have miss: "cached browser fresh_world (cacheKey EUR) = Inr Miss" by (rule fresh_miss)
  have fail: "live_rates EUR (offline (rates_url EUR)) = Inl FetchRejected"
    by (simp add: live_rates_def offline_def)
  have first: "getLatestRates browser offline 250 EUR fresh_world
                 = Inr (Some (JObj (relativeFallbackRates EUR)), ?w1)"
    by (simp add: getLatestRates_cases miss fail) (simp add: fresh_world_def)
  have same: "sessionStorage ?w2 = sessionStorage ?w1" by simp
  have later: "now ?w1 \<le> now ?w2" by simp
  have el: "(0::int) \<le> 250" by simp
  from C10_fallback_not_cached [OF miss fail first same later el, of offline 0]
  show ?thesis by simp
qed

section \<open>Properties of the persistence service\<close>

lemma or_else_defaulted: "defaulted a d (or_else a d)"
  by (cases a) (simp_all add: defaulted_def or_else_def)

lemma or_else_truthy: "truthy (Some d) \<Longrightarrow> truthy (Some (or_else a d))"
  by (cases a) (simp_all add: or_else_def)

lemma or_else_Some: "truthy (Some v) \<Longrightarrow> or_else (Some v) d = v"
  by (simp add: or_else_def)

lemma getprop_field: "t \<noteq> JNull \<Longrightarrow> getprop t k = Inr (field t k)"
  by (cases t) (simp_all add: field_def)

lemma falsy_ids_Cons:
  "falsy_ids (t # xs) = (if truthy (field t ''id'') then 0 else 1) + falsy_ids xs"
  by (simp add: falsy_ids_def)

lemma sanitize_entry:
  assumes "t \<noteq> JNull" and "Number P (field t ''amount'') = Inr n"
  shows "\<exists>x. sanitize P t w
              = (Inr x, w\<lparr>uuids_drawn := uuids_drawn w + (if truthy (field t ''id'') then 0 else 1)\<rparr>)
            \<and> sanitized_as P (now w) (uuids_drawn w) t x"
  using assms
  by (cases n)
     (simp_all add: sanitize_def getprop_field Let_def sanitized_as_def or_else_defaulted)

lemma sanitize_all_entries:
  assumes "\<forall>t \<in> set raw. t \<noteq> JNull \<and> (\<exists>n. Number P (field t ''amount'') = Inr n)"
  shows "\<exists>ts. sanitize_all P raw w
               = (Inr ts, w\<lparr>uuids_drawn := uuids_drawn w + falsy_ids raw\<rparr>)
             \<and> length ts = length raw
             \<and> (\<forall>i < length raw.
                  sanitized_as P (now w) (uuids_drawn w + falsy_ids (take i raw)) (raw ! i) (ts ! i))"
  using assms
proof (induction raw arbitrary: w)
  case Nil
  then show ?case by (simp add: falsy_ids_def)
next
  case (Cons t raw)
  from Cons.prems obtain n where t: "t \<noteq> JNull" and n: "Number P (field t ''amount'') = Inr n"
    by auto
  let ?w1 = "w\<lparr>uuids_drawn := uuids_drawn w + (if truthy (field t ''id'') then 0 else 1)\<rparr>"
  from sanitize_entry [OF t n, of w] obtain x
    where x: "sanitize P t w = (Inr x, ?w1)" and sx: "sanitized_as P (now w) (uuids_drawn w) t x"
    by blast
  from Cons.prems have rest: "\<forall>t \<in> set raw. t \<noteq> JNull \<and> (\<exists>n. Number P (field t ''amount'') = Inr n)"
    by simp
  from Cons.IH [OF rest, of ?w1] obtain ts
    where ts: "sanitize_all P raw ?w1
                 = (Inr ts, ?w1\<lparr>uuids_drawn := uuids_drawn ?w1 + falsy_ids raw\<rparr>)"
      and len: "length ts = length raw"
      and each: "\<forall>i < length raw.
                   sanitized_as P (now ?w1) (uuids_drawn ?w1 + falsy_ids (take i raw)) (raw ! i) (ts ! i)"
    by blast
  have run: "sanitize_all P (t # raw) w
               = (Inr (x # ts), w\<lparr>uuids_drawn := uuids_drawn w + falsy_ids (t # raw)\<rparr>)"
    by (simp add: x ts falsy_ids_Cons)
  have all: "\<forall>i < length (t # raw).
               sanitized_as P (now w) (uuids_drawn w + falsy_ids (take i (t # raw)))
                 ((t # raw) ! i) ((x # ts) ! i)"
  proof (intro allI impI)
    fix i assume i: "i < length (t # raw)"
    show "sanitized_as P (now w) (uuids_drawn w + falsy_ids (take i (t # raw)))
            ((t # raw) ! i) ((x # ts) ! i)"
    proof (cases i)
      case 0
      then show ?thesis using sx by (simp add: falsy_ids_def)
    next
      case (Suc j)
      with i have "j < length raw" by simp
      with each have "sanitized_as P (now ?w1) (uuids_drawn ?w1 + falsy_ids (take j raw)) (raw ! j) (ts ! j)"
        by blast
      then show ?thesis by (simp add: Suc falsy_ids_Cons add.assoc)
    qed
  qed
  from run len all show ?case by auto
qed


lemma sanitize_now: "sanitize P t w = (r, w') \<Longrightarrow> localStorage w' = localStorage w \<and> now w' = now w"
  by (auto simp: sanitize_def Let_def split: sum.splits if_splits)

lemma sanitize_all_storage:
  "sanitize_all P raw w = (r, w') \<Longrightarrow> localStorage w' = localStorage w"
proof (induction raw arbitrary: w r w')
  case Nil
  then show ?case by simp
next
  case (Cons t raw)
  obtain r1 w1 where s1: "sanitize P t w = (r1, w1)" by (cases "sanitize P t w")
  then have l1: "localStorage w1 = localStorage w" using sanitize_now by blast
  show ?case
  proof (cases r1)
    case (Inl e)
    then show ?thesis using Cons.prems s1 l1 by simp
  next
    case (Inr x)
    obtain r2 w2 where s2: "sanitize_all P raw w1 = (r2, w2)" by (cases "sanitize_all P raw w1")
    then have "localStorage w2 = localStorage w1" by (rule Cons.IH)
    moreover have "w' = w2" using Cons.prems s1 s2 Inr by (cases r2) simp_all
    ultimately show ?thesis using l1 by simp
  qed
qed

lemma getTransactions_storage:
  "getTransactions P w = (ts, w') \<Longrightarrow> localStorage w' = localStorage w"
  by (auto simp: getTransactions_def split: option.splits if_splits sum.splits json.splits prod.splits
      dest: sanitize_all_storage)

lemma sanitize_toJSON:
  assumes "truthy_fields t"
  shows "sanitize P (toJSON t) w = (Inr t, w)"
proof (cases t)
  case (fields i a d c dt ty cu)
  then show ?thesis using assms
    by (cases ty)
       (simp_all add: sanitize_def Let_def truthy_fields_def toJSON_def field_def or_else_def)
qed

lemma sanitize_all_toJSON:
  "\<forall>t \<in> set ts. truthy_fields t \<Longrightarrow> sanitize_all P (map toJSON ts) w = (Inr ts, w)"
  by (induction ts) (simp_all add: sanitize_toJSON)

lemma reload:
  assumes "\<forall>t \<in> set ts. truthy_fields t"
  shows "getTransactions P (setTransactions ts w) = (ts, setTransactions ts w)"
  using sanitize_all_toJSON [OF assms]
  by (simp add: getTransactions_def setTransactions_def JSON_stringify_def JSON_parse_def)

lemma sanitize_truthy:
  assumes "platform_ok P" and "sanitize P t w = (Inr x, w')"
  shows "truthy_fields x"
proof -
  have u: "\<And>n. randomUUID P n \<noteq> []" and d: "\<And>c. toISOString P c \<noteq> []"
    using assms(1) by (simp_all add: platform_ok_def)
  from assms(2) show ?thesis
    by (auto simp: sanitize_def Let_def truthy_fields_def or_else_truthy u d
        split: sum.splits)
qed

lemma sanitize_all_truthy:
  assumes "platform_ok P"
  shows "sanitize_all P raw w = (Inr ts, w') \<Longrightarrow> \<forall>t \<in> set ts. truthy_fields t"
proof (induction raw arbitrary: w ts w')
  case Nil
  then show ?case by simp
next
  case (Cons t raw)
  obtain r1 w1 where s1: "sanitize P t w = (r1, w1)" by (cases "sanitize P t w")
  obtain r2 w2 where s2: "sanitize_all P raw w1 = (r2, w2)" by (cases "sanitize_all P raw w1")
  from Cons.prems s1 s2 obtain x xs where r1: "r1 = Inr x" and r2: "r2 = Inr xs" and ts: "ts = x # xs"
    by (cases r1; cases r2) auto
  have "truthy_fields x" using sanitize_truthy [OF assms] s1 r1 by blast
  moreover have "\<forall>t \<in> set xs. truthy_fields t" using Cons.IH s2 r2 by blast
  ultimately show ?case by (simp add: ts)
qed

lemma getTransactions_truthy:
  assumes "platform_ok P" and "getTransactions P w = (ts, w')"
  shows "\<forall>t \<in> set ts. truthy_fields t"
  using assms(2) sanitize_all_truthy [OF assms(1)]
  by (auto simp: getTransactions_def split: option.splits if_splits sum.splits json.splits prod.splits)

text \<open>
  C3, as the specification states it, fails: an invalid \<^verbatim>\<open>id\<close> is to be replaced by a
  fresh identifier and an invalid \<^verbatim>\<open>amount\<close> by 0, every entry becoming a well-formed
  transaction. From the stored list \<^verbatim>\<open>[{"id": 5, "amount": true, "type": "income"}]\<close>
  the number 5 is kept as the \<^verbatim>\<open>id\<close> and the amount is 1.
\<close>

theorem C3_invalid_values_kept:
  "fst (getTransactions browser odd_store)
     = [\<lparr>tx_id = JNum 5, tx_amount = 1, tx_description = JStr ''Tanpa Keterangan'',
         tx_category = JStr ''Lainnya'', tx_date = JStr (toISOString browser 0),
         tx_type = INCOME, tx_currency = JStr ''IDR''\<rparr>]"
  by (simp add: getTransactions_def odd_store_def fresh_world_def JSON_parse_def sanitize_def
      field_def or_else_def Let_def)

text \<open>
  C3, amended: \<^verbatim>\<open>getTransactions\<close> returns the empty list, without throwing, when nothing
  is stored, when the stored text is not JSON, and when it is JSON but not a list. For a
  stored list none of whose entries is \<^verbatim>\<open>null\<close> and whose amounts convert to a number
  without throwing, it returns one transaction per entry, in order, by these rules: an
  \<^verbatim>\<open>id\<close> that is missing or falsy (\<^verbatim>\<open>null\<close>, \<^verbatim>\<open>false\<close>, 0, the empty string) is replaced
  by a newly drawn identifier, one draw per such entry, and any other \<^verbatim>\<open>id\<close> is kept as it
  is; the amount is \<^verbatim>\<open>Number\<close> of the raw amount, and 0 when that is \<open>NaN\<close>; a missing or
  falsy \<^verbatim>\<open>description\<close>, \<^verbatim>\<open>category\<close>, \<^verbatim>\<open>date\<close>, \<^verbatim>\<open>currency\<close> becomes
  \<^verbatim>\<open>'Tanpa Keterangan'\<close>, \<^verbatim>\<open>'Lainnya'\<close>, the current time, \<^verbatim>\<open>'IDR'\<close>, and any other
  value is kept; the type is income exactly when the raw type is the string \<^verbatim>\<open>'income'\<close>,
  and expense otherwise.
\<close>

theorem C3_getTransactions:
  "(localStorage w STORAGE_KEY = None \<longrightarrow> getTransactions P w = ([], w))
   \<and> (localStorage w STORAGE_KEY = Some (NotJSON s) \<longrightarrow> getTransactions P w = ([], w))
   \<and> (localStorage w STORAGE_KEY = Some (JSONText v) \<and> (\<forall>xs. v \<noteq> JArr xs)
        \<longrightarrow> getTransactions P w = ([], w))
   \<and> (localStorage w STORAGE_KEY = Some (JSONText (JArr raw))
        \<and> (\<forall>t \<in> set raw. t \<noteq> JNull \<and> (\<exists>n. Number P (field t ''amount'') = Inr n))
        \<longrightarrow> (\<exists>ts. getTransactions P w = (ts, w\<lparr>uuids_drawn := uuids_drawn w + falsy_ids raw\<rparr>)
                \<and> length ts = length raw
                \<and> (\<forall>i < length raw.
                     sanitized_as P (now w) (uuids_drawn w + falsy_ids (take i raw))
                       (raw ! i) (ts ! i))))"
proof (intro conjI impI)
  assume "localStorage w STORAGE_KEY = None"
  then show "getTransactions P w = ([], w)" by (simp add: getTransactions_def)
next
  assume "localStorage w STORAGE_KEY = Some (NotJSON s)"
  then show "getTransactions P w = ([], w)" by (simp add: getTransactions_def JSON_parse_def)
next
  assume "localStorage w STORAGE_KEY = Some (JSONText v) \<and> (\<forall>xs. v \<noteq> JArr xs)"
  then show "getTransactions P w = ([], w)"
    by (cases v) (simp_all add: getTransactions_def JSON_parse_def)
next
  assume a: "localStorage w STORAGE_KEY = Some (JSONText (JArr raw))
             \<and> (\<forall>t \<in> set raw. t \<noteq> JNull \<and> (\<exists>n. Number P (field t ''amount'') = Inr n))"
  then have "\<forall>t \<in> set raw. t \<noteq> JNull \<and> (\<exists>n. Number P (field t ''amount'') = Inr n)" by blast
  from sanitize_all_entries [OF this, of w] obtain ts
    where run: "sanitize_all P raw w = (Inr ts, w\<lparr>uuids_drawn := uuids_drawn w + falsy_ids raw\<rparr>)"
      and len: "length ts = length raw"
      and each: "\<forall>i < length raw.
                   sanitized_as P (now w) (uuids_drawn w + falsy_ids (take i raw)) (raw ! i) (ts ! i)"
    by blast
  have "getTransactions P w = (ts, w\<lparr>uuids_drawn := uuids_drawn w + falsy_ids raw\<rparr>)"
    using a run by (simp add: getTransactions_def JSON_parse_def)
  with len each
  show "\<exists>ts. getTransactions P w = (ts, w\<lparr>uuids_drawn := uuids_drawn w + falsy_ids raw\<rparr>)
              \<and> length ts = length raw
              \<and> (\<forall>i < length raw.
                   sanitized_as P (now w) (uuids_drawn w + falsy_ids (take i raw))
                     (raw ! i) (ts ! i))"
    by blast
qed

theorem C3_getTransactions_witness:
  "getTransactions browser fresh_world = ([], fresh_world)
   \<and> getTransactions browser (fresh_world\<lparr>localStorage := [STORAGE_KEY \<mapsto> NotJSON ''[{'']\<rparr>)
       = ([], fresh_world\<lparr>localStorage := [STORAGE_KEY \<mapsto> NotJSON ''[{'']\<rparr>)
   \<and> getTransactions browser (fresh_world\<lparr>localStorage := [STORAGE_KEY \<mapsto> JSONText (JNum 7)]\<rparr>)
       = ([], fresh_world\<lparr>localStorage := [STORAGE_KEY \<mapsto> JSONText (JNum 7)]\<rparr>)
   \<and> (\<exists>ts. getTransactions browser sparse_store = (ts, sparse_store\<lparr>uuids_drawn := 2\<rparr>)
          \<and> length ts = 2
          \<and> sanitized_as browser 0 0 (sparse_entries ! 0) (ts ! 0)
          \<and> sanitized_as browser 0 1 (sparse_entries ! 1) (ts ! 1))"
proof -
  let ?bad = "fresh_world\<lparr>localStorage := [STORAGE_KEY \<mapsto> NotJSON ''[{'']\<rparr>"
  let ?num = "fresh_world\<lparr>localStorage := [STORAGE_KEY \<mapsto> JSONText (JNum 7)]\<rparr>"
  have a: "getTransactions browser fresh_world = ([], fresh_world)"
    using C3_getTransactions [of fresh_world browser] by (simp add: fresh_world_def)
  have b: "getTransactions browser ?bad = ([], ?bad)"
    using C3_getTransactions [of ?bad browser "''[{''"] by simp
  have c: "getTransactions browser ?num = ([], ?num)"
    using C3_getTransactions [of ?num browser _ "JNum 7"] by simp
  have ok: "\<forall>t \<in> set sparse_entries.
              t \<noteq> JNull \<and> (\<exists>n. Number browser (field t ''amount'') = Inr n)"
    by (simp add: sparse_entries_def field_def)
  have st: "localStorage sparse_store STORAGE_KEY = Some (JSONText (JArr sparse_entries))"
    by (simp add: sparse_store_def)
  have f2: "falsy_ids sparse_entries = 2" and f1: "falsy_ids (take (Suc 0) sparse_entries) = 1"
    and l: "length sparse_entries = 2"
    by (simp_all add: falsy_ids_def sparse_entries_def field_def)
  have w: "uuids_drawn sparse_store = 0" "now sparse_store = 0"
    by (simp_all add: sparse_store_def fresh_world_def)
  from C3_getTransactions [of sparse_store browser _ _ sparse_entries] st ok
  obtain ts where run: "getTransactions browser sparse_store
                          = (ts, sparse_store\<lparr>uuids_drawn := uuids_drawn sparse_store + falsy_ids sparse_entries\<rparr>)"
    and len: "length ts = length sparse_entries"
    and each: "\<forall>i < length sparse_entries.
                 sanitized_as browser (now sparse_store)
                   (uuids_drawn sparse_store + falsy_ids (take i sparse_entries))
                   (sparse_entries ! i) (ts ! i)"
    by blast
  have e0: "sanitized_as browser 0 0 (sparse_entries ! 0) (ts ! 0)"
    using each [rule_format, of 0] by (simp add: l w falsy_ids_def)
  have e1: "sanitized_as browser 0 1 (sparse_entries ! 1) (ts ! 1)"
    using each [rule_format, of 1] by (simp add: l w f1)
  have d: "\<exists>ts. getTransactions browser sparse_store = (ts, sparse_store\<lparr>uuids_drawn := 2\<rparr>)
          \<and> length ts = 2
          \<and> sanitized_as browser 0 0 (sparse_entries ! 0) (ts ! 0)
          \<and> sanitized_as browser 0 1 (sparse_entries ! 1) (ts ! 1)"
    using run len e0 e1 by (simp add: f2 l w)
  from a b c d show ?thesis by blast
qed

text \<open>
  C7, as the specification states it, fails for a transaction with a falsy field: saved
  with the empty description, it is stored as it is and \<^verbatim>\<open>saveTransaction\<close> returns it,
  but \<^verbatim>\<open>getTransactions\<close> then returns it with the description \<^verbatim>\<open>'Tanpa Keterangan'\<close>.
\<close>

theorem C7_blank_description_replaced:
  "fst (saveTransaction browser blank_tx fresh_world) = [blank_tx]
   \<and> fst (getTransactions browser (snd (saveTransaction browser blank_tx fresh_world)))
       = [blank_tx\<lparr>tx_description := JStr ''Tanpa Keterangan''\<rparr>]
   \<and> blank_tx\<lparr>tx_description := JStr ''Tanpa Keterangan''\<rparr> \<noteq> blank_tx"
  by (simp add: saveTransaction_def getTransactions_def setTransactions_def fresh_world_def
      JSON_stringify_def JSON_parse_def sanitize_def toJSON_def field_def or_else_def Let_def
      blank_tx_def sample_tx_def)

text \<open>
  C7, amended: for a transaction whose \<^verbatim>\<open>id\<close>, \<^verbatim>\<open>description\<close>, \<^verbatim>\<open>category\<close>, \<^verbatim>\<open>date\<close>
  and \<^verbatim>\<open>currency\<close> are truthy (non-empty strings), \<^verbatim>\<open>saveTransaction\<close> returns the new
  transaction followed by the list it loaded, and \<^verbatim>\<open>getTransactions\<close> then returns that
  same list: the new transaction first, every earlier one unchanged.
\<close>

theorem C7_save_then_load:
  assumes ok: "platform_ok P" and tx: "truthy_fields tx" and load: "getTransactions P w = (current, w1)"
  shows "saveTransaction P tx w = (tx # current, setTransactions (tx # current) w1)
         \<and> getTransactions P (setTransactions (tx # current) w1)
             = (tx # current, setTransactions (tx # current) w1)"
proof -
  have "\<forall>t \<in> set (tx # current). truthy_fields t"
    using getTransactions_truthy [OF ok load] tx by simp
  from reload [OF this] load show ?thesis by (simp add: saveTransaction_def Let_def)
qed

theorem C7_save_then_load_witness:
  "saveTransaction browser other_tx (setTransactions [sample_tx] fresh_world)
     = ([other_tx, sample_tx], setTransactions [other_tx, sample_tx] (setTransactions [sample_tx] fresh_world))
   \<and> getTransactions browser (setTransactions [other_tx, sample_tx] (setTransactions [sample_tx] fresh_world))
       = ([other_tx, sample_tx], setTransactions [other_tx, sample_tx] (setTransactions [sample_tx] fresh_world))"
proof -
  have ok: "platform_ok browser" by (simp add: platform_ok_def browser_def)
  have tx: "truthy_fields other_tx" by (simp add: truthy_fields_def other_tx_def)
  have "\<forall>t \<in> set [sample_tx]. truthy_fields t" by (simp add: truthy_fields_def sample_tx_def)
  from reload [OF this]
  have load: "getTransactions browser (setTransactions [sample_tx] fresh_world)
                = ([sample_tx], setTransactions [sample_tx] fresh_world)" .
  from C7_save_then_load [OF ok tx load] show ?thesis .
qed

text \<open>
  C8, as the specification states it, fails for a stored transaction with a falsy field:
  with the list \<open>[blank_tx]\<close> stored, deleting an identifier that no transaction has
  returns and stores the transaction with the description \<^verbatim>\<open>'Tanpa Keterangan'\<close> in
  place of the empty one, so a transaction that does not match has a field changed.
\<close>

theorem C8_blank_description_rewritten:
  "localStorage (setTransactions [blank_tx] fresh_world) STORAGE_KEY
     = Some (JSON_stringify (JArr [toJSON blank_tx]))
   \<and> tx_id blank_tx \<noteq> JStr ''zz''
   \<and> fst (deleteTransaction browser ''zz'' (setTransactions [blank_tx] fresh_world))
       = [blank_tx\<lparr>tx_description := JStr ''Tanpa Keterangan''\<rparr>]
   \<and> localStorage (snd (deleteTransaction browser ''zz'' (setTransactions [blank_tx] fresh_world)))
         STORAGE_KEY
       = Some (JSON_stringify (JArr [toJSON (blank_tx\<lparr>tx_description := JStr ''Tanpa Keterangan''\<rparr>)]))
   \<and> blank_tx\<lparr>tx_description := JStr ''Tanpa Keterangan''\<rparr> \<noteq> blank_tx"
  by (simp add: deleteTransaction_def getTransactions_def setTransactions_def fresh_world_def
      JSON_stringify_def JSON_parse_def sanitize_def toJSON_def field_def or_else_def Let_def
      blank_tx_def sample_tx_def)

text \<open>
  C8, amended: \<^verbatim>\<open>deleteTransaction(id)\<close> returns the list that \<^verbatim>\<open>getTransactions\<close> loads
  (the stored entries after sanitization) without the transactions whose \<^verbatim>\<open>id\<close> is that
  string; every other loaded transaction remains, in the same relative order and with the
  field values it was loaded with. It stores that list, and \<^verbatim>\<open>getTransactions\<close> then
  returns it again.
\<close>

theorem C8_delete:
  assumes ok: "platform_ok P" and load: "getTransactions P w = (current, w1)"
      and del: "deleteTransaction P i w = (updated, w2)"
  shows "updated = filter (\<lambda>t. tx_id t \<noteq> JStr i) current
         \<and> localStorage w2 = (localStorage w)(STORAGE_KEY \<mapsto> JSON_stringify (JArr (map toJSON updated)))
         \<and> getTransactions P w2 = (updated, w2)"
proof -
  have u: "updated = filter (\<lambda>t. tx_id t \<noteq> JStr i) current" and w2: "w2 = setTransactions updated w1"
    using load del by (auto simp: deleteTransaction_def Let_def)
  have "\<forall>t \<in> set updated. truthy_fields t"
    using getTransactions_truthy [OF ok load] by (simp add: u)
  from reload [OF this, of P w1] have again: "getTransactions P w2 = (updated, w2)" by (simp add: w2)
  have "localStorage w2 = (localStorage w)(STORAGE_KEY \<mapsto> JSON_stringify (JArr (map toJSON updated)))"
    using getTransactions_storage [OF load] by (simp add: w2 setTransactions_def)
  with u again show ?thesis by blast
qed

theorem C8_delete_witness:
  "deleteTransaction browser ''a1'' (setTransactions [other_tx, sample_tx] fresh_world)
     = ([other_tx], setTransactions [other_tx] (setTransactions [other_tx, sample_tx] fresh_world))
   \<and> getTransactions browser (setTransactions [other_tx] (setTransactions [other_tx, sample_tx] fresh_world))
       = ([other_tx], setTransactions [other_tx] (setTransactions [other_tx, sample_tx] fresh_world))"
proof -
  let ?w = "setTransactions [other_tx, sample_tx] fresh_world"
  have ok: "platform_ok browser" by (simp add: platform_ok_def browser_def)
  have "\<forall>t \<in> set [other_tx, sample_tx]. truthy_fields t"
    by (simp add: truthy_fields_def sample_tx_def other_tx_def)
  from reload [OF this]
  have load: "getTransactions browser ?w = ([other_tx, sample_tx], ?w)" .
  have ids: "tx_id other_tx = JStr ''b2''" "tx_id sample_tx = JStr ''a1''"
    by (simp_all add: sample_tx_def other_tx_def)
  have del: "deleteTransaction browser ''a1'' ?w = ([other_tx], setTransactions [other_tx] ?w)"
    by (simp add: deleteTransaction_def load Let_def ids)
  from C8_delete [OF ok load del]
  have "getTransactions browser (setTransactions [other_tx] ?w)
          = ([other_tx], setTransactions [other_tx] ?w)"
    by (rule conjunct2 [THEN conjunct2])
  with del show ?thesis by (rule conjI)
qed

lemma map_of_spread:
  "distinct (map fst kvs) \<Longrightarrow>
   map_of (foldl (\<lambda>obj (k, x). assign obj k x) target kvs) x
     = (case map_of kvs x of Some y \<Rightarrow> Some y | None \<Rightarrow> map_of target x)"
proof (induction kvs arbitrary: target)
  case Nil
  then show ?case by simp
next
  case (Cons kv kvs)
  obtain k v where kv: "kv = (k, v)" by (cases kv)
  from Cons.prems have d: "distinct (map fst kvs)" and k: "k \<notin> fst ` set kvs" by (auto simp: kv)
  have none: "map_of kvs k = None" using k by (simp add: map_of_eq_None_iff)
  show ?case using Cons.IH [OF d, of "assign target k v"] none
    by (auto simp: kv map_of_assign split: option.splits)
qed

text \<open>
  C9: after \<^verbatim>\<open>saveSettings(s)\<close>, \<^verbatim>\<open>getSettings()\<close> returns an object in which every
  property of \<open>s\<close> has the value it has in \<open>s\<close> and every other property has its default
  (an object has each of its keys once).
\<close>

theorem C9_settings:
  assumes "distinct (map fst s)"
  shows "map_of (getSettings (saveSettings s w)) k
           = (case map_of s k of Some v \<Rightarrow> Some v | None \<Rightarrow> map_of DEFAULT_SETTINGS k)"
proof -
  have d: "spread [] (JObj DEFAULT_SETTINGS) = DEFAULT_SETTINGS"
    by (simp add: spread_def DEFAULT_SETTINGS_def)
  have "getSettings (saveSettings s w) = spread DEFAULT_SETTINGS (JObj s)"
    by (simp add: getSettings_def saveSettings_def JSON_stringify_def JSON_parse_def d)
  then show ?thesis using map_of_spread [OF assms, of DEFAULT_SETTINGS k]
    by (simp add: spread_def)
qed

theorem C9_settings_witness:
  "map_of (getSettings (saveSettings [(''theme'', JStr ''light''), (''avatar'', JNull)] fresh_world))
     ''theme'' = Some (JStr ''light'')
   \<and> map_of (getSettings (saveSettings [(''theme'', JStr ''light''), (''avatar'', JNull)] fresh_world))
       ''username'' = Some (JStr ''User'')"
proof -
  let ?s = "[(''theme'', JStr ''light''), (''avatar'', JNull)]"
  have d: "distinct (map fst ?s)" by simp
  from C9_settings [OF d, of fresh_world "''theme''"] C9_settings [OF d, of fresh_world "''username''"]
  show ?thesis by (simp add: DEFAULT_SETTINGS_def)
qed

section \<open>Properties of the offline cache worker\<close>

text \<open>
  When the network fails, the answer to a navigation request is taken from the dynamic
  cache alone.
\<close>

lemma navigate_offline:
  assumes "req_method request = ''GET''" and "req_protocol request \<noteq> ''chrome-extension:''"
      and "\<not> str_includes (req_hostname request) ''googleapis.com''"
      and "\<not> str_includes (req_hostname request) ''generativelanguage.googleapis.com''"
      and "req_mode request = ''navigate''" and "net (req_url request) = None"
  shows "fetch_handler origin net request c
           = (Responded (case dynamic_cache c (req_url request) of
                           Some r \<Rightarrow> Some r
                         | None \<Rightarrow> dynamic_cache c (resolve origin ''/index.html'')), c)"
  using assms by (simp add: fetch_handler_def)

text \<open>
  C2 does not hold of the worker. The install handler stores the shell in the static cache;
  the navigation branch, when the network fails, looks only in the dynamic cache, for the
  request and then for \<^verbatim>\<open>/index.html\<close>. After an installation with the network
  reachable, the static cache holds the root document and \<^verbatim>\<open>/index.html\<close>; a navigation
  to the root with the network unreachable is nevertheless answered with \<^verbatim>\<open>undefined\<close>,
  a network error.
\<close>

theorem C2_offline_root_after_install:
  "install test_origin shell_online no_caches \<noteq> None
   \<and> static_cache installed (resolve test_origin ''/'')
       = Some \<lparr>ok = True, body = NotJSON ''content of https://sakuku.example/''\<rparr>
   \<and> static_cache installed (resolve test_origin ''/index.html'')
       = Some \<lparr>ok = True, body = NotJSON ''content of https://sakuku.example/index.html''\<rparr>
   \<and> offline (req_url root_navigation) = None
   \<and> fst (fetch_handler test_origin offline root_navigation installed) = Responded None"
  by (simp add: installed_def install_def addAll_def STATIC_ASSETS_def shell_online_def
      resolve_def test_origin_def no_caches_def fetch_handler_def root_navigation_def offline_def)

end
